theory Spec2Isabelle
  imports Complex_Main
begin

section \<open>Python values\<close>

text \<open>
  The application (\<^verbatim>\<open>app/app.py\<close>) is a Flask program around one HTTP call and one
  database insert. Its data are Python values decoded from JSON, so the embedding starts
  with those. A Python \<^verbatim>\<open>float\<close> is an IEEE double: a finite one is kept as the exact
  rational it denotes, next to the three special values that \<^verbatim>\<open>json.loads\<close> also
  accepts. A \<^verbatim>\<open>dict\<close> is an association list read with \<open>map_of\<close>.
\<close>

datatype pyfloat = Finite rat | PosInf | NegInf | NaN

datatype json =
    JNull
  | JBool bool
  | JInt int
  | JFloat pyfloat
  | JStr string
  | JArr "json list"
  | JObj "(string \<times> json) list"

text \<open>
  Exceptions are values. \<open>HTTPError\<close> carries the status code of its response and its
  text; \<open>RequestException\<close> stands for every other exception of the \<^verbatim>\<open>requests\<close>
  hierarchy (connection errors, timeouts, and the decoding error of
  \<^verbatim>\<open>response.json()\<close>, which belongs to that hierarchy since requests 2.27).
  \<open>JSONDecodeError\<close> is that of the \<^verbatim>\<open>json\<close> module. \<open>OperationalError\<close>,
  \<open>ProgrammingError\<close> and \<open>InterfaceError\<close> are psycopg2's; \<open>DatabaseError\<close> stands for
  any other exception raised while a statement runs.
\<close>

datatype py_exn =
    KeyError string
  | KeyErrorIdx int
  | IndexError
  | TypeError
  | AttributeError
  | ValueError string
  | OverflowError
  | OSError
  | RecursionError
  | JSONDecodeError string
  | HTTPError nat string
  | RequestException string
  | OperationalError string
  | ProgrammingError string
  | InterfaceError string
  | DatabaseError string

text \<open>\<^verbatim>\<open>str(e)\<close>, as far as the program prints or interpolates it.\<close>

fun exn_text :: "py_exn \<Rightarrow> string" where
  "exn_text (KeyError k) = [CHR 0x27] @ k @ [CHR 0x27]"
| "exn_text (KeyErrorIdx i) = ''<index>''"
| "exn_text IndexError = ''index out of range''"
| "exn_text TypeError = ''TypeError''"
| "exn_text AttributeError = ''AttributeError''"
| "exn_text (ValueError m) = m"
| "exn_text OverflowError = ''OverflowError''"
| "exn_text OSError = ''OSError''"
| "exn_text RecursionError = ''maximum recursion depth exceeded''"
| "exn_text (JSONDecodeError m) = m"
| "exn_text (HTTPError s m) = m"
| "exn_text (RequestException m) = m"
| "exn_text (OperationalError m) = m"
| "exn_text (ProgrammingError m) = m"
| "exn_text (InterfaceError m) = m"
| "exn_text (DatabaseError m) = m"

text \<open>
  A statement that raises ends the block it stands in: \<open>and_then m f\<close> runs \<open>f\<close> on the
  value of \<open>m\<close>, unless \<open>m\<close> raised.
\<close>

fun and_then :: "py_exn + 'a \<Rightarrow> ('a \<Rightarrow> py_exn + 'b) \<Rightarrow> py_exn + 'b" where
  "and_then (Inl e) f = Inl e"
| "and_then (Inr v) f = f v"

subsection \<open>Subscripts, iteration, membership\<close>

text \<open>\<^verbatim>\<open>obj[key]\<close> with a string key: only a dict accepts it.\<close>

fun getitem_str :: "json \<Rightarrow> string \<Rightarrow> py_exn + json" where
  "getitem_str (JObj kv) k = (case map_of kv k of None \<Rightarrow> Inl (KeyError k) | Some v \<Rightarrow> Inr v)"
| "getitem_str _ k = Inl TypeError"

text \<open>
  \<^verbatim>\<open>obj[i]\<close> with an integer: lists and strings index (negative indices count from the
  end), a dict decoded from JSON has string keys only, everything else is not
  subscriptable.
\<close>

definition py_index :: "'a list \<Rightarrow> int \<Rightarrow> py_exn + 'a" where
  "py_index xs i =
     (if 0 \<le> i \<and> i < int (length xs) then Inr (xs ! nat i)
      else if i < 0 \<and> - int (length xs) \<le> i then Inr (xs ! nat (int (length xs) + i))
      else Inl IndexError)"

fun getitem_int :: "json \<Rightarrow> int \<Rightarrow> py_exn + json" where
  "getitem_int (JArr xs) i = py_index xs i"
| "getitem_int (JStr s) i = (case py_index s i of Inl e \<Rightarrow> Inl e | Inr c \<Rightarrow> Inr (JStr [c]))"
| "getitem_int (JObj kv) i = Inl (KeyErrorIdx i)"
| "getitem_int _ i = Inl TypeError"

text \<open>\<^verbatim>\<open>for x in obj\<close>: a list yields its items, a string its characters, a dict its keys.\<close>

fun py_iter :: "json \<Rightarrow> py_exn + json list" where
  "py_iter (JArr xs) = Inr xs"
| "py_iter (JStr s) = Inr (map (\<lambda>c. JStr [c]) s)"
| "py_iter (JObj kv) = Inr (map (\<lambda>p. JStr (fst p)) kv)"
| "py_iter _ = Inl TypeError"

fun startswith :: "string \<Rightarrow> string \<Rightarrow> bool" where
  "startswith hay [] = True"
| "startswith [] (c # cs) = False"
| "startswith (h # hs) (c # cs) = (h = c \<and> startswith hs cs)"

fun str_contains :: "string \<Rightarrow> string \<Rightarrow> bool" where
  "str_contains [] needle = (needle = [])"
| "str_contains (h # hs) needle = (startswith (h # hs) needle \<or> str_contains hs needle)"

text \<open>
  \<^verbatim>\<open>needle in obj\<close> for a string needle: substring search in a string, membership in a
  list, key membership in a dict; a number, a boolean or \<^verbatim>\<open>None\<close> is not iterable.
\<close>

fun py_contains :: "json \<Rightarrow> string \<Rightarrow> py_exn + bool" where
  "py_contains (JStr s) needle = Inr (str_contains s needle)"
| "py_contains (JArr xs) needle = Inr (JStr needle \<in> set xs)"
| "py_contains (JObj kv) needle = Inr (needle \<in> fst ` set kv)"
| "py_contains _ needle = Inl TypeError"

subsection \<open>\<^verbatim>\<open>round\<close> and \<^verbatim>\<open>str.title\<close>\<close>

text \<open>
  \<^verbatim>\<open>round(x)\<close> with one argument returns an \<^verbatim>\<open>int\<close>: the nearest integer, a tie going
  to the even neighbour. On the exact value of a double this is exact.
\<close>

definition round_half_even :: "rat \<Rightarrow> int" where
  "round_half_even q =
     (let f = \<lfloor>q\<rfloor>; d = q - of_int f
      in if d < 1 / 2 then f else if 1 / 2 < d then f + 1 else if even f then f else f + 1)"

fun py_round :: "json \<Rightarrow> py_exn + int" where
  "py_round (JInt n) = Inr n"
| "py_round (JBool b) = Inr (if b then 1 else 0)"
| "py_round (JFloat (Finite q)) = Inr (round_half_even q)"
| "py_round (JFloat NaN) = Inl (ValueError ''cannot convert float NaN to integer'')"
| "py_round (JFloat PosInf) = Inl OverflowError"
| "py_round (JFloat NegInf) = Inl OverflowError"
| "py_round _ = Inl TypeError"

text \<open>
  \<^verbatim>\<open>str.title()\<close> walks the string once: a character that follows a cased character is
  lowercased, any other is titlecased. \<open>title\<close> is that walk with the case tables of
  ASCII, which is what \<^verbatim>\<open>str.title()\<close> does on ASCII text. On text with a character
  outside ASCII the tables are those of Unicode; they are a parameter of the model
  (\<open>unicode_title\<close> below).
\<close>

definition is_upper :: "char \<Rightarrow> bool" where
  "is_upper c = (65 \<le> (of_char c :: nat) \<and> (of_char c :: nat) \<le> 90)"

definition is_lower :: "char \<Rightarrow> bool" where
  "is_lower c = (97 \<le> (of_char c :: nat) \<and> (of_char c :: nat) \<le> 122)"

definition is_cased :: "char \<Rightarrow> bool" where
  "is_cased c = (is_upper c \<or> is_lower c)"

definition to_upper :: "char \<Rightarrow> char" where
  "to_upper c = (if is_lower c then char_of ((of_char c :: nat) - 32) else c)"

definition to_lower :: "char \<Rightarrow> char" where
  "to_lower c = (if is_upper c then char_of ((of_char c :: nat) + 32) else c)"

fun title_from :: "bool \<Rightarrow> string \<Rightarrow> string" where
  "title_from previous_is_cased [] = []"
| "title_from previous_is_cased (c # cs) =
     (if previous_is_cased then to_lower c else to_upper c) # title_from (is_cased c) cs"

definition title :: "string \<Rightarrow> string" where
  "title s = title_from False s"

definition ascii_text :: "string \<Rightarrow> bool" where
  "ascii_text s = list_all (\<lambda>c. (of_char c :: nat) < 128) s"

section \<open>The world outside the program\<close>

text \<open>
  What the process reads from its surroundings is a parameter of every operation:
  the two configuration variables read at start-up, the answer of the weather
  service to a request, the local calendar behind
  \<^verbatim>\<open>datetime.fromtimestamp(...).strftime('%A, %b %d')\<close>, the Unicode case tables
  behind \<^verbatim>\<open>str.title()\<close>, what \<^verbatim>\<open>json.loads\<close> returns or raises, and the faults of the
  database driver.
\<close>

record response =
  status_code :: nat
  http_error_text :: string
  json_body :: "py_exn + json"

text \<open>
  \<open>http_error_text\<close> is the text of the \<^verbatim>\<open>HTTPError\<close> that \<^verbatim>\<open>raise_for_status\<close>
  builds from status, reason and URL; \<open>json_body\<close> is what \<^verbatim>\<open>response.json()\<close>
  returns or raises: a \<open>RequestException\<close> for text that does not decode (requests
  2.27 and later), or what the decoder raises otherwise.
\<close>

datatype http_outcome = Responded response | Failed string

datatype sql_statement =
    CreateForecastsIfNotExists
  | InsertForecast string string json

text \<open>
  The ways \<^verbatim>\<open>datetime.fromtimestamp\<close> refuses a number: \<^verbatim>\<open>ValueError\<close> for a year out
  of range, \<^verbatim>\<open>OverflowError\<close> for a timestamp out of range, \<^verbatim>\<open>OSError\<close> from the platform.
\<close>

datatype date_fault = YearOutOfRange | TimestampOutOfRange | PlatformFault

record env =
  openweather_api_key :: "string option"
  database_url :: "string option"
  http_get :: "string \<Rightarrow> http_outcome"
  date_label :: "rat \<Rightarrow> date_fault + string"
  unicode_title :: "string \<Rightarrow> string"
  json_loads :: "string \<Rightarrow> py_exn + json"
  connect_fault :: "py_exn option"
  execute_fault :: "sql_statement \<Rightarrow> py_exn option"
  commit_fault :: "py_exn option"
  rollback_fault :: "py_exn option"
  close_fault :: "py_exn option"

text \<open>
  What the process does to its surroundings is recorded in a log, oldest event first,
  next to the committed content of the database.
\<close>

datatype event =
    HttpGet string
  | Flash string string
  | Print string
  | DbConnect "string option"
  | DbExecute sql_statement
  | DbCommit
  | DbRollback
  | DbClose

text \<open>
  A row of the table \<^verbatim>\<open>forecasts\<close> holds the three columns the program writes; the
  identifier and the time of saving are filled in by the storage engine and are not
  modelled. A database either has the table, with its rows, or has not.
\<close>

record saved_forecast =
  row_user_name :: string
  row_city :: string
  row_forecast_data :: json

record database =
  forecasts_table :: "saved_forecast list option"

record world =
  db :: database
  events :: "event list"

definition emit :: "event \<Rightarrow> world \<Rightarrow> world" where
  "emit e w = w\<lparr>events := events w @ [e]\<rparr>"

section \<open>Weather client\<close>

record forecast_entry =
  fc_date :: string
  fc_temp :: int
  fc_description :: string
  fc_icon :: json

record city_info =
  ci_name :: json
  ci_country :: json

text \<open>
  \<^verbatim>\<open>get_weather_forecast\<close> returns a tuple of two items on its first exit and of four
  items on every other.
\<close>

datatype weather_result =
    Tuple2 string
  | Tuple4 "forecast_entry list option" "city_info option" "json option" "string option"

definition api_url :: "string \<Rightarrow> string \<Rightarrow> string" where
  "api_url city key =
     ''http://api.openweathermap.org/data/2.5/forecast?q='' @ city @ ''&appid='' @ key
       @ ''&units=metric''"

text \<open>\<^verbatim>\<open>response.raise_for_status()\<close>: an exception for 4xx and 5xx.\<close>

definition raise_for_status :: "response \<Rightarrow> py_exn + unit" where
  "raise_for_status r =
     (if 400 \<le> status_code r \<and> status_code r < 600
      then Inl (HTTPError (status_code r) (http_error_text r)) else Inr ())"

text \<open>\<^verbatim>\<open>data.get('list', [])\<close>: a method of dicts only.\<close>

fun dict_get_list :: "json \<Rightarrow> py_exn + json" where
  "dict_get_list (JObj kv) = (case map_of kv ''list'' of None \<Rightarrow> Inr (JArr []) | Some v \<Rightarrow> Inr v)"
| "dict_get_list _ = Inl AttributeError"

text \<open>\<^verbatim>\<open>datetime.fromtimestamp(forecast['dt']).strftime('%A, %b %d')\<close>\<close>

fun date_exn :: "date_fault \<Rightarrow> py_exn" where
  "date_exn YearOutOfRange = ValueError ''year is out of range''"
| "date_exn TimestampOutOfRange = OverflowError"
| "date_exn PlatformFault = OSError"

definition label_of :: "env \<Rightarrow> rat \<Rightarrow> py_exn + string" where
  "label_of env t = (case date_label env t of Inl f \<Rightarrow> Inl (date_exn f) | Inr l \<Rightarrow> Inr l)"

fun strftime_label :: "env \<Rightarrow> json \<Rightarrow> py_exn + string" where
  "strftime_label env (JInt n) = label_of env (of_int n)"
| "strftime_label env (JBool b) = label_of env (if b then 1 else 0)"
| "strftime_label env (JFloat (Finite q)) = label_of env q"
| "strftime_label env (JFloat NaN) = Inl (ValueError ''Invalid value NaN (not a number)'')"
| "strftime_label env (JFloat PosInf) = Inl OverflowError"
| "strftime_label env (JFloat NegInf) = Inl OverflowError"
| "strftime_label env _ = Inl TypeError"

text \<open>The subscript chains of one sample, as the source writes them.\<close>

definition sample_temp :: "json \<Rightarrow> py_exn + json" where
  "sample_temp forecast =
     and_then (getitem_str forecast ''main'') (\<lambda>m. getitem_str m ''temp'')"

definition sample_weather0 :: "json \<Rightarrow> py_exn + json" where
  "sample_weather0 forecast =
     and_then (getitem_str forecast ''weather'') (\<lambda>ws. getitem_int ws 0)"

definition sample_description :: "json \<Rightarrow> py_exn + json" where
  "sample_description forecast =
     and_then (sample_weather0 forecast) (\<lambda>w0. getitem_str w0 ''description'')"

definition sample_icon :: "json \<Rightarrow> py_exn + json" where
  "sample_icon forecast =
     and_then (sample_weather0 forecast) (\<lambda>w0. getitem_str w0 ''icon'')"

text \<open>\<^verbatim>\<open>.title()\<close> is a method of strings only.\<close>

definition str_title :: "env \<Rightarrow> string \<Rightarrow> string" where
  "str_title env s = (if ascii_text s then title s else unicode_title env s)"

fun title_method :: "env \<Rightarrow> json \<Rightarrow> py_exn + string" where
  "title_method env (JStr s) = Inr (str_title env s)"
| "title_method env _ = Inl AttributeError"

text \<open>The dict appended for one midday sample; its four values are evaluated in order.\<close>

definition make_entry :: "env \<Rightarrow> json \<Rightarrow> py_exn + forecast_entry" where
  "make_entry env forecast =
     and_then (getitem_str forecast ''dt'') (\<lambda>dt.
     and_then (strftime_label env dt) (\<lambda>date.
     and_then (sample_temp forecast) (\<lambda>t.
     and_then (py_round t) (\<lambda>temp.
     and_then (sample_description forecast) (\<lambda>d.
     and_then (title_method env d) (\<lambda>description.
     and_then (sample_icon forecast) (\<lambda>icon.
     Inr \<lparr>fc_date = date, fc_temp = temp, fc_description = description,
          fc_icon = icon\<rparr>)))))))"

text \<open>
  The loop over the samples, \<open>processed_forecasts\<close> being the list built so far.
\<close>

fun process_forecasts ::
  "env \<Rightarrow> json list \<Rightarrow> forecast_entry list \<Rightarrow> py_exn + forecast_entry list" where
  "process_forecasts env [] processed_forecasts = Inr processed_forecasts"
| "process_forecasts env (forecast # rest) processed_forecasts =
     and_then (getitem_str forecast ''dt_txt'') (\<lambda>dt_txt.
     and_then (py_contains dt_txt ''12:00:00'') (\<lambda>midday.
       if midday then
         and_then (make_entry env forecast) (\<lambda>entry.
           process_forecasts env rest (processed_forecasts @ [entry]))
       else process_forecasts env rest processed_forecasts))"

definition make_city_info :: "json \<Rightarrow> py_exn + city_info" where
  "make_city_info data =
     and_then (getitem_str data ''city'') (\<lambda>c.
     and_then (getitem_str c ''name'') (\<lambda>name.
     and_then (getitem_str data ''city'') (\<lambda>c'.
     and_then (getitem_str c' ''country'') (\<lambda>country.
     Inr \<lparr>ci_name = name, ci_country = country\<rparr>))))"

text \<open>Everything after \<^verbatim>\<open>data = response.json()\<close> inside the \<^verbatim>\<open>try\<close>.\<close>

definition process_data :: "env \<Rightarrow> json \<Rightarrow> py_exn + weather_result" where
  "process_data env data =
     and_then (dict_get_list data) (\<lambda>lst.
     and_then (py_iter lst) (\<lambda>samples.
     and_then (process_forecasts env samples []) (\<lambda>processed_forecasts.
     and_then (make_city_info data) (\<lambda>city_info.
     Inr (Tuple4 (Some processed_forecasts) (Some city_info) (Some data) None)))))"

text \<open>The body of the \<^verbatim>\<open>try\<close>.\<close>

definition try_fetch :: "env \<Rightarrow> string \<Rightarrow> py_exn + weather_result" where
  "try_fetch env url =
     (case http_get env url of
        Failed text \<Rightarrow> Inl (RequestException text)
      | Responded r \<Rightarrow>
          and_then (raise_for_status r) (\<lambda>u.
          and_then (json_body r) (\<lambda>data. process_data env data)))"

definition not_found_message :: "string \<Rightarrow> string" where
  "not_found_message city =
     ''Could not find weather data for '' @ [CHR 0x27] @ city @ [CHR 0x27]
       @ ''. Please check the spelling.''"

text \<open>
  The two \<^verbatim>\<open>except\<close> clauses: \<^verbatim>\<open>HTTPError\<close> first, then the rest of the
  \<^verbatim>\<open>requests\<close> hierarchy. Any other exception leaves the function.
\<close>

fun except_clauses :: "string \<Rightarrow> py_exn \<Rightarrow> py_exn + weather_result" where
  "except_clauses city (HTTPError status text) =
     (if status = 404 then Inr (Tuple4 None None None (Some (not_found_message city)))
      else Inr (Tuple4 None None None (Some (''An API error occurred: '' @ text))))"
| "except_clauses city (RequestException text) =
     Inr (Tuple4 None None None (Some (''A network error occurred: '' @ text)))"
| "except_clauses city e = Inl e"

text \<open>\<^verbatim>\<open>not OPENWEATHER_API_KEY\<close>: unset, or set to the empty string.\<close>

definition py_not :: "string option \<Rightarrow> bool" where
  "py_not v = (case v of None \<Rightarrow> True | Some s \<Rightarrow> s = [])"

definition get_weather_forecast ::
  "env \<Rightarrow> string \<Rightarrow> world \<Rightarrow> (py_exn + weather_result) \<times> world" where
  "get_weather_forecast env city w =
     (case openweather_api_key env of
        None \<Rightarrow> (Inr (Tuple2 ''OpenWeatherMap API key is not configured.''), w)
      | Some key \<Rightarrow>
          if key = [] then (Inr (Tuple2 ''OpenWeatherMap API key is not configured.''), w)
          else
            (let url = api_url city key; w' = emit (HttpGet url) w
             in case try_fetch env url of
                  Inr result \<Rightarrow> (Inr result, w')
                | Inl e \<Rightarrow> (except_clauses city e, w')))"

section \<open>Forecast store\<close>

text \<open>
  A connection works on its own copy of the database until it commits. The driver's
  calls log themselves; each may raise what the environment says it raises.
\<close>

record connection =
  pending :: database

text \<open>What the two statements of the program do to a database.\<close>

fun run_statement :: "sql_statement \<Rightarrow> database \<Rightarrow> py_exn + database" where
  "run_statement CreateForecastsIfNotExists d =
     (case forecasts_table d of None \<Rightarrow> Inr (d\<lparr>forecasts_table := Some []\<rparr>) | Some rows \<Rightarrow> Inr d)"
| "run_statement (InsertForecast user_name city forecast_data) d =
     (case forecasts_table d of
        None \<Rightarrow> Inl (DatabaseError ''relation forecasts does not exist'')
      | Some rows \<Rightarrow>
          Inr (d\<lparr>forecasts_table := Some (rows @
            [\<lparr>row_user_name = user_name, row_city = city,
              row_forecast_data = forecast_data\<rparr>])\<rparr>))"

definition cursor_execute ::
  "env \<Rightarrow> sql_statement \<Rightarrow> connection \<Rightarrow> world \<Rightarrow> (py_exn + unit) \<times> connection \<times> world" where
  "cursor_execute env stmt conn w =
     (let w' = emit (DbExecute stmt) w
      in case execute_fault env stmt of
           Some e \<Rightarrow> (Inl e, conn, w')
         | None \<Rightarrow>
             (case run_statement stmt (pending conn) of
                Inl e \<Rightarrow> (Inl e, conn, w')
              | Inr d \<Rightarrow> (Inr (), conn\<lparr>pending := d\<rparr>, w')))"

definition conn_commit :: "env \<Rightarrow> connection \<Rightarrow> world \<Rightarrow> (py_exn + unit) \<times> world" where
  "conn_commit env conn w =
     (let w' = emit DbCommit w
      in case commit_fault env of
           Some e \<Rightarrow> (Inl e, w')
         | None \<Rightarrow> (Inr (), w'\<lparr>db := pending conn\<rparr>))"

definition conn_rollback ::
  "env \<Rightarrow> connection \<Rightarrow> world \<Rightarrow> (py_exn + unit) \<times> connection \<times> world" where
  "conn_rollback env conn w =
     (let w' = emit DbRollback w
      in case rollback_fault env of
           Some e \<Rightarrow> (Inl e, conn, w')
         | None \<Rightarrow> (Inr (), conn\<lparr>pending := db w'\<rparr>, w'))"

definition conn_close :: "env \<Rightarrow> connection \<Rightarrow> world \<Rightarrow> (py_exn + unit) \<times> world" where
  "conn_close env conn w =
     (let w' = emit DbClose w
      in case close_fault env of Some e \<Rightarrow> (Inl e, w') | None \<Rightarrow> (Inr (), w'))"

text \<open>\<^verbatim>\<open>get_db_connection\<close>: only \<^verbatim>\<open>psycopg2.OperationalError\<close> is turned into \<^verbatim>\<open>None\<close>.\<close>

fun connect_except :: "py_exn \<Rightarrow> world \<Rightarrow> (py_exn + connection option) \<times> world" where
  "connect_except (OperationalError m) w =
     (Inr None, emit (Print (''Error connecting to the database: '' @ m)) w)"
| "connect_except e w = (Inl e, w)"

definition get_db_connection :: "env \<Rightarrow> world \<Rightarrow> (py_exn + connection option) \<times> world" where
  "get_db_connection env w =
     (let w' = emit (DbConnect (database_url env)) w
      in case connect_fault env of
           None \<Rightarrow> (Inr (Some \<lparr>pending = db w'\<rparr>), w')
         | Some e \<Rightarrow> connect_except e w')"

definition init_db :: "env \<Rightarrow> world \<Rightarrow> (py_exn + unit) \<times> world" where
  "init_db env w =
     (case get_db_connection env w of
        (Inl e, w1) \<Rightarrow> (Inl e, w1)
      | (Inr None, w1) \<Rightarrow>
          (Inr (), emit (Print ''Could not initialize database. Connection failed.'') w1)
      | (Inr (Some conn), w1) \<Rightarrow>
          (case cursor_execute env CreateForecastsIfNotExists conn w1 of
             (Inl e, conn2, w2) \<Rightarrow> (Inl e, w2)
           | (Inr u, conn2, w2) \<Rightarrow>
               (case conn_commit env conn2 w2 of
                  (Inl e, w3) \<Rightarrow> (Inl e, w3)
                | (Inr u, w3) \<Rightarrow>
                    (case conn_close env conn2 w3 of
                       (Inl e, w4) \<Rightarrow> (Inl e, w4)
                     | (Inr u, w4) \<Rightarrow>
                         (Inr (), emit (Print ''Database initialized successfully.'') w4)))))"

text \<open>The three blocks of \<^verbatim>\<open>save_forecast_to_db\<close>: \<^verbatim>\<open>try\<close>, \<^verbatim>\<open>except Exception\<close>, \<^verbatim>\<open>finally\<close>.\<close>

definition try_insert ::
  "env \<Rightarrow> string \<Rightarrow> string \<Rightarrow> json \<Rightarrow> connection \<Rightarrow> world
     \<Rightarrow> (py_exn + bool \<times> string) \<times> connection \<times> world" where
  "try_insert env user_name city forecast_data conn w =
     (case cursor_execute env (InsertForecast user_name city forecast_data) conn w of
        (Inl e, conn1, w1) \<Rightarrow> (Inl e, conn1, w1)
      | (Inr u, conn1, w1) \<Rightarrow>
          (case conn_commit env conn1 w1 of
             (Inl e, w2) \<Rightarrow> (Inl e, conn1, w2)
           | (Inr u, w2) \<Rightarrow> (Inr (True, ''Forecast saved successfully!''), conn1, w2)))"

definition except_exception ::
  "env \<Rightarrow> (py_exn + bool \<times> string) \<times> connection \<times> world
     \<Rightarrow> (py_exn + bool \<times> string) \<times> connection \<times> world" where
  "except_exception env outcome =
     (case outcome of
        (Inr r, conn, w) \<Rightarrow> (Inr r, conn, w)
      | (Inl e, conn, w) \<Rightarrow>
          (case conn_rollback env conn w of
             (Inl e', conn1, w1) \<Rightarrow> (Inl e', conn1, w1)
           | (Inr u, conn1, w1) \<Rightarrow>
               (Inr (False, ''Failed to save forecast due to a database error.''), conn1,
                emit (Print (''Database error: '' @ exn_text e)) w1)))"

definition finally_close ::
  "env \<Rightarrow> (py_exn + bool \<times> string) \<times> connection \<times> world
     \<Rightarrow> (py_exn + bool \<times> string) \<times> world" where
  "finally_close env outcome =
     (case outcome of
        (r, conn, w) \<Rightarrow>
          (case conn_close env conn w of (Inl e, w1) \<Rightarrow> (Inl e, w1) | (Inr u, w1) \<Rightarrow> (r, w1)))"

definition save_forecast_to_db ::
  "env \<Rightarrow> string \<Rightarrow> string \<Rightarrow> json \<Rightarrow> world \<Rightarrow> (py_exn + bool \<times> string) \<times> world" where
  "save_forecast_to_db env user_name city forecast_data w =
     (case get_db_connection env w of
        (Inl e, w1) \<Rightarrow> (Inl e, w1)
      | (Inr None, w1) \<Rightarrow> (Inr (False, ''Database connection failed.''), w1)
      | (Inr (Some conn), w1) \<Rightarrow>
          finally_close env
            (except_exception env (try_insert env user_name city forecast_data conn w1)))"

section \<open>Request handler\<close>

datatype http_method = GET | POST

record template_context =
  ctx_forecasts :: "forecast_entry list option"
  ctx_city_info :: "city_info option"
  ctx_user_name :: string
  ctx_raw_data_for_db :: "json option"

text \<open>
  A view returns a redirect or a rendered template; an exception that leaves the view
  is the \<open>Inl\<close> of its result.
\<close>

datatype page = Redirect string | Render string "template_context option"

definition flash :: "string \<Rightarrow> string \<Rightarrow> world \<Rightarrow> world" where
  "flash message category w = emit (Flash message category) w"

text \<open>The text of a form field or of an error, read only where \<open>py_not\<close> has failed.\<close>

definition text_of :: "string option \<Rightarrow> string" where
  "text_of v = (case v of None \<Rightarrow> [] | Some s \<Rightarrow> s)"

text \<open>
  The assignment \<^verbatim>\<open>forecasts, city_info, raw_data, error = get_weather_forecast(city)\<close>
  and what follows it.
\<close>

definition index_forecast ::
  "env \<Rightarrow> string \<Rightarrow> string \<Rightarrow> world \<Rightarrow> (py_exn + page) \<times> world" where
  "index_forecast env user_name city w =
     (case get_weather_forecast env city w of
        (Inl e, w1) \<Rightarrow> (Inl e, w1)
      | (Inr (Tuple2 message), w1) \<Rightarrow>
          (Inl (ValueError ''not enough values to unpack (expected 4, got 2)''), w1)
      | (Inr (Tuple4 forecasts city_info raw_data error), w1) \<Rightarrow>
          if \<not> py_not error then (Inr (Redirect ''index''), flash (text_of error) ''error'' w1)
          else
            (Inr (Render ''index.html''
               (Some \<lparr>ctx_forecasts = forecasts, ctx_city_info = city_info,
                      ctx_user_name = user_name, ctx_raw_data_for_db = raw_data\<rparr>)), w1))"

definition index ::
  "env \<Rightarrow> http_method \<Rightarrow> (string \<Rightarrow> string option) \<Rightarrow> world \<Rightarrow> (py_exn + page) \<times> world" where
  "index env method form w =
     (if method = POST then
        (let user_name = form ''name''; city = form ''city''
         in if py_not user_name \<or> py_not city
            then (Inr (Redirect ''index''),
                  flash ''Please enter both your name and a city.'' ''error'' w)
            else index_forecast env (text_of user_name) (text_of city) w)
      else (Inr (Render ''index.html'' None), w))"

text \<open>
  The clause \<^verbatim>\<open>except json.JSONDecodeError\<close> of \<^verbatim>\<open>save_forecast\<close>, which covers both
  statements of its \<^verbatim>\<open>try\<close>; after it the view redirects. Any other exception leaves
  the view.
\<close>

fun except_json_decode_error :: "py_exn \<Rightarrow> world \<Rightarrow> (py_exn + page) \<times> world" where
  "except_json_decode_error (JSONDecodeError m) w =
     (Inr (Redirect ''index''), flash ''Invalid forecast data format.'' ''error'' w)"
| "except_json_decode_error e w = (Inl e, w)"

definition save_forecast ::
  "env \<Rightarrow> (string \<Rightarrow> string option) \<Rightarrow> world \<Rightarrow> (py_exn + page) \<times> world" where
  "save_forecast env form w =
     (let user_name = form ''user_name''; city = form ''city'';
          raw_data_str = form ''raw_data''
      in if py_not user_name \<or> py_not city \<or> py_not raw_data_str
         then (Inr (Redirect ''index''), flash ''Missing data to save the forecast.'' ''error'' w)
         else
           (case json_loads env (text_of raw_data_str) of
              Inl e \<Rightarrow> except_json_decode_error e w
            | Inr raw_data \<Rightarrow>
                (case save_forecast_to_db env (text_of user_name) (text_of city) raw_data w of
                   (Inl e, w1) \<Rightarrow> except_json_decode_error e w1
                 | (Inr (success, message), w1) \<Rightarrow>
                     (Inr (Redirect ''index''),
                      flash message (if success then ''success'' else ''error'') w1))))"

section \<open>Reading the specification\<close>

text \<open>The events an operation has added to the log of the world it started in.\<close>

definition events_since :: "world \<Rightarrow> world \<Rightarrow> event list" where
  "events_since w w' = drop (length (events w)) (events w')"

text \<open>
  The samples of a response are the items of its \<^verbatim>\<open>list\<close> field. A midday sample is one
  whose \<^verbatim>\<open>dt_txt\<close> contains \<^verbatim>\<open>12:00:00\<close>, in the sense of the \<^verbatim>\<open>in\<close> of the source; for
  a \<^verbatim>\<open>dt_txt\<close> that is text this is the substring relation (\<open>midday_sample_text\<close> below).
\<close>

definition response_samples :: "json \<Rightarrow> json list" where
  "response_samples data =
     (case dict_get_list data of
        Inl e \<Rightarrow> []
      | Inr lst \<Rightarrow> (case py_iter lst of Inl e \<Rightarrow> [] | Inr xs \<Rightarrow> xs))"

definition midday_sample :: "json \<Rightarrow> bool" where
  "midday_sample sample =
     (case getitem_str sample ''dt_txt'' of
        Inl e \<Rightarrow> False
      | Inr t \<Rightarrow> py_contains t ''12:00:00'' = Inr True)"

text \<open>A sample whose \<^verbatim>\<open>dt_txt\<close> is text without \<^verbatim>\<open>12:00:00\<close> in it.\<close>

definition not_midday_text :: "json \<Rightarrow> bool" where
  "not_midday_text sample =
     (case getitem_str sample ''dt_txt'' of
        Inr (JStr t) \<Rightarrow> \<not> str_contains t ''12:00:00''
      | _ \<Rightarrow> False)"










text \<open>
  The transaction of the connection as the \<^verbatim>\<open>except\<close> block of \<open>save_forecast_to_db\<close>
  leaves it, before the connection is closed.
\<close>

definition transaction_after_attempt ::
  "env \<Rightarrow> string \<Rightarrow> string \<Rightarrow> json \<Rightarrow> world \<Rightarrow> database" where
  "transaction_after_attempt env user_name city forecast_data w =
     (let w1 = emit (DbConnect (database_url env)) w
      in pending (fst (snd (except_exception env
           (try_insert env user_name city forecast_data \<lparr>pending = db w1\<rparr> w1)))))"

text \<open>
  The driver fails to connect with \<^verbatim>\<open>OperationalError\<close> or not at all; the insert
  raises when the statement or the commit does.
\<close>

definition operational_connect :: "env \<Rightarrow> bool" where
  "operational_connect env =
     (case connect_fault env of
        None \<Rightarrow> True
      | Some (OperationalError m) \<Rightarrow> True
      | Some _ \<Rightarrow> False)"

definition insert_raises :: "env \<Rightarrow> string \<Rightarrow> string \<Rightarrow> json \<Rightarrow> world \<Rightarrow> bool" where
  "insert_raises env user_name city forecast_data w =
     (execute_fault env (InsertForecast user_name city forecast_data) \<noteq> None \<or>
      forecasts_table (db w) = None \<or> commit_fault env \<noteq> None)"

text \<open>
  \<^verbatim>\<open>init_db\<close> called once per environment of the list, each call starting in the world
  the one before has left; and the environments in which the call cannot create the table.
\<close>

primrec init_db_runs :: "env list \<Rightarrow> world \<Rightarrow> world" where
  "init_db_runs [] w = w"
| "init_db_runs (env # envs) w = init_db_runs envs (snd (init_db env w))"

definition init_faulty :: "env \<Rightarrow> bool" where
  "init_faulty env =
     (connect_fault env \<noteq> None \<or> execute_fault env CreateForecastsIfNotExists \<noteq> None \<or>
      commit_fault env \<noteq> None)"

subsection \<open>Concrete surroundings\<close>

text \<open>
  A response for Paris with one midday sample and one afternoon sample. The midday
  temperature is the double nearest to 20.6, written as the fraction it is.
\<close>

definition paris_sample :: json where
  "paris_sample =
     JObj [(''dt'', JInt 1700000000), (''dt_txt'', JStr ''2023-11-14 12:00:00''),
       (''main'', JObj [(''temp'', JFloat (Finite (2899192260119757 / 140737488355328)))]),
       (''weather'',
        JArr [JObj [(''description'', JStr ''clear sky''), (''icon'', JStr ''01d'')]])]"

definition afternoon_sample :: json where
  "afternoon_sample =
     JObj [(''dt'', JInt 1700010800), (''dt_txt'', JStr ''2023-11-14 15:00:00'')]"

definition paris_city :: json where
  "paris_city = JObj [(''name'', JStr ''Paris''), (''country'', JStr ''FR'')]"

definition paris_body :: json where
  "paris_body = JObj [(''list'', JArr [paris_sample, afternoon_sample]), (''city'', paris_city)]"

definition afternoon_body :: json where
  "afternoon_body = JObj [(''list'', JArr [afternoon_sample]), (''city'', paris_city)]"

definition paris_entry :: forecast_entry where
  "paris_entry =
     \<lparr>fc_date = ''Tuesday, Nov 14'', fc_temp = 21, fc_description = ''Clear Sky'',
      fc_icon = JStr ''01d''\<rparr>"

definition paris_info :: city_info where
  "paris_info = \<lparr>ci_name = JStr ''Paris'', ci_country = JStr ''FR''\<rparr>"

text \<open>Bodies that lack one of the keys the client subscripts.\<close>

definition afternoon_no_city_body :: json where
  "afternoon_no_city_body = JObj [(''list'', JArr [afternoon_sample])]"

definition no_city_body :: json where
  "no_city_body = JObj [(''list'', JArr [])]"

definition no_dt_txt_body :: json where
  "no_dt_txt_body =
     JObj [(''list'', JArr [JObj [(''dt'', JInt 1700000000)]]), (''city'', paris_city)]"

definition no_main_body :: json where
  "no_main_body =
     JObj [(''list'', JArr [JObj [(''dt'', JInt 1700000000),
                                  (''dt_txt'', JStr ''2023-11-14 12:00:00'')]]),
           (''city'', paris_city)]"

definition no_weather_body :: json where
  "no_weather_body =
     JObj [(''list'', JArr [JObj [(''dt'', JInt 1700000000),
                                  (''dt_txt'', JStr ''2023-11-14 12:00:00''),
                                  (''main'', JObj [(''temp'', JInt 20)])]]),
           (''city'', paris_city)]"

definition respond :: "nat \<Rightarrow> json \<Rightarrow> string \<Rightarrow> http_outcome" where
  "respond status body url =
     Responded \<lparr>status_code = status, http_error_text = ''HTTP error for url: '' @ url,
       json_body = Inr body\<rparr>"

text \<open>
  An environment in which everything works: the key is set, the service answers 200
  with the Paris document and the driver has no fault. Its \<^verbatim>\<open>json.loads\<close> knows four
  kinds of text: it decodes \<^verbatim>\<open>null\<close>, it decodes \<^verbatim>\<open>NaN\<close>, which is no JSON, to the float,
  it exceeds the recursion limit on a hundred thousand opening brackets, and it refuses
  everything else as undecodable.
\<close>

definition deeply_nested :: string where
  "deeply_nested = replicate 100000 (CHR ''['')"

definition demo_env :: env where
  "demo_env =
     \<lparr>openweather_api_key = Some ''k'', database_url = Some ''postgresql://db'',
      http_get = respond 200 paris_body,
      date_label = (\<lambda>t. Inr ''Tuesday, Nov 14''),
      unicode_title = (\<lambda>s. s),
      json_loads =
        (\<lambda>s. if s = ''null'' then Inr JNull
              else if s = ''NaN'' then Inr (JFloat NaN)
              else if s = deeply_nested then Inl RecursionError
              else Inl (JSONDecodeError ''Expecting value'')),
      connect_fault = None, execute_fault = (\<lambda>s. None), commit_fault = None,
      rollback_fault = None, close_fault = None\<rparr>"

definition env_answering :: "nat \<Rightarrow> json \<Rightarrow> env" where
  "env_answering status body = demo_env\<lparr>http_get := respond status body\<rparr>"

definition unset_key_env :: env where
  "unset_key_env = demo_env\<lparr>openweather_api_key := None\<rparr>"

definition lost_connection_env :: env where
  "lost_connection_env =
     demo_env\<lparr>execute_fault :=
       (\<lambda>s. Some (OperationalError ''server closed the connection unexpectedly''))\<rparr>"

definition dead_connection_env :: env where
  "dead_connection_env =
     lost_connection_env\<lparr>rollback_fault :=
       Some (InterfaceError ''connection already closed'')\<rparr>"

definition malformed_dsn_env :: env where
  "malformed_dsn_env =
     demo_env\<lparr>connect_fault := Some (ProgrammingError ''invalid dsn'')\<rparr>"

definition unreachable_db_env :: env where
  "unreachable_db_env =
     demo_env\<lparr>connect_fault := Some (OperationalError ''connection refused'')\<rparr>"

definition demo_world :: world where
  "demo_world = \<lparr>db = \<lparr>forecasts_table = None\<rparr>, events = []\<rparr>"

definition saved_world :: world where
  "saved_world =
     \<lparr>db = \<lparr>forecasts_table =
              Some [\<lparr>row_user_name = ''Alice'', row_city = ''Paris'',
                     row_forecast_data = paris_body\<rparr>]\<rparr>,
      events = []\<rparr>"

definition alice_paris_form :: "string \<Rightarrow> string option" where
  "alice_paris_form = [''name'' \<mapsto> ''Alice'', ''city'' \<mapsto> ''Paris'']"

definition name_only_form :: "string \<Rightarrow> string option" where
  "name_only_form = [''name'' \<mapsto> ''Alice'']"

definition bad_json_form :: "string \<Rightarrow> string option" where
  "bad_json_form =
     [''user_name'' \<mapsto> ''Alice'', ''city'' \<mapsto> ''Paris'', ''raw_data'' \<mapsto> ''not-json'']"

definition city_raw_form :: "string \<Rightarrow> string option" where
  "city_raw_form = [''city'' \<mapsto> ''Paris'', ''raw_data'' \<mapsto> ''not-json'']"

definition nan_form :: "string \<Rightarrow> string option" where
  "nan_form = [''user_name'' \<mapsto> ''Alice'', ''city'' \<mapsto> ''Paris'', ''raw_data'' \<mapsto> ''NaN'']"

definition nested_form :: "string \<Rightarrow> string option" where
  "nested_form =
     [''user_name'' \<mapsto> ''Alice'', ''city'' \<mapsto> ''Paris'', ''raw_data'' \<mapsto> deeply_nested]"

section \<open>Properties\<close>

subsection \<open>Log and control-flow lemmas\<close>

lemma events_since_emit: "events_since w (emit e w) = [e]"
  by (simp add: events_since_def emit_def)

lemma db_emit: "db (emit e w) = db w"
  by (simp add: emit_def)


lemma unset_key_returns_pair:
  "py_not (openweather_api_key env) \<Longrightarrow>
   get_weather_forecast env city w =
     (Inr (Tuple2 ''OpenWeatherMap API key is not configured.''), w)"
  by (simp add: get_weather_forecast_def py_not_def split: option.splits)

lemma unset_key_index_unhandled:
  "py_not (openweather_api_key env) \<Longrightarrow> \<not> py_not (form ''name'') \<Longrightarrow>
   \<not> py_not (form ''city'') \<Longrightarrow>
   index env POST form w =
     (Inl (ValueError ''not enough values to unpack (expected 4, got 2)''), w)"
  by (simp add: index_def index_forecast_def unset_key_returns_pair)

subsection \<open>Substring search\<close>

lemma startswith_iff: "startswith hay needle \<longleftrightarrow> (\<exists>q. hay = needle @ q)"
  by (induction hay needle rule: startswith.induct) auto

lemma str_contains_iff: "str_contains hay needle \<longleftrightarrow> (\<exists>p q. hay = p @ needle @ q)"
proof (induction hay)
  case Nil
  then show ?case by auto
next
  case (Cons h hs)
  show ?case
  proof
    assume "str_contains (h # hs) needle"
    then consider "startswith (h # hs) needle" | "str_contains hs needle" by auto
    then show "\<exists>p q. h # hs = p @ needle @ q"
    proof cases
      case 1
      then obtain q where "h # hs = needle @ q" by (auto simp: startswith_iff)
      then have "h # hs = [] @ needle @ q" by simp
      then show ?thesis by blast
    next
      case 2
      with Cons.IH obtain p q where "hs = p @ needle @ q" by auto
      then have "h # hs = (h # p) @ needle @ q" by simp
      then show ?thesis by blast
    qed
  next
    assume "\<exists>p q. h # hs = p @ needle @ q"
    then obtain p q where pq: "h # hs = p @ needle @ q" by auto
    show "str_contains (h # hs) needle"
    proof (cases p)
      case Nil
      with pq have "startswith (h # hs) needle" by (auto simp: startswith_iff)
      then show ?thesis by simp
    next
      case (Cons a p')
      with pq have "hs = p' @ needle @ q" by simp
      with Cons.IH have "str_contains hs needle" by blast
      then show ?thesis by simp
    qed
  qed
qed

lemma midday_sample_text:
  "getitem_str sample ''dt_txt'' = Inr (JStr t) \<Longrightarrow>
   midday_sample sample \<longleftrightarrow> (\<exists>p q. t = p @ ''12:00:00'' @ q)"
  by (simp add: midday_sample_def str_contains_iff)

subsection \<open>Rounding and title case against their descriptions\<close>









subsection \<open>The loop over the samples\<close>




lemma process_forecasts_no_midday:
  "list_all not_midday_text samples \<Longrightarrow>
   process_forecasts env samples processed = Inr processed"
proof (induction samples)
  case Nil
  then show ?case by simp
next
  case (Cons s rest)
  from Cons.prems obtain t where "getitem_str s ''dt_txt'' = Inr (JStr t)"
    and "\<not> str_contains t ''12:00:00''"
    by (auto simp add: not_midday_text_def split: sum.splits json.splits)
  moreover from Cons have "process_forecasts env rest processed = Inr processed" by simp
  ultimately show ?case by simp
qed




subsection \<open>Evaluation on the concrete surroundings\<close>

lemmas eval_defs = get_weather_forecast_def try_fetch_def raise_for_status_def
  process_data_def make_entry_def make_city_info_def sample_temp_def sample_weather0_def
  sample_description_def sample_icon_def py_index_def api_url_def label_of_def
  respond_def demo_env_def env_answering_def paris_body_def paris_sample_def
  afternoon_sample_def paris_city_def paris_entry_def paris_info_def







subsection \<open>Display form\<close>

text \<open>
  C1. With the API credential unset, \<open>get_weather_forecast\<close> returns its configuration
  error without any request: the world is returned as it was. The error is a tuple of
  two items, though, and the view unpacks four: for the form of Alice asking for Paris
  the view ends in an unhandled \<open>ValueError\<close>, and nothing is flashed.
\<close>

theorem unset_key_view_fails:
  "get_weather_forecast unset_key_env ''Paris'' demo_world =
     (Inr (Tuple2 ''OpenWeatherMap API key is not configured.''), demo_world) \<and>
   index unset_key_env POST alice_paris_form demo_world =
     (Inl (ValueError ''not enough values to unpack (expected 4, got 2)''), demo_world)"
proof -
  have key: "py_not (openweather_api_key unset_key_env)"
    by (simp add: unset_key_env_def py_not_def)
  have name: "\<not> py_not (alice_paris_form ''name'')"
    by (simp add: alice_paris_form_def py_not_def)
  have city: "\<not> py_not (alice_paris_form ''city'')"
    by (simp add: alice_paris_form_def py_not_def)
  show ?thesis
    using unset_key_returns_pair [OF key] unset_key_index_unhandled [OF key name city]
    by simp
qed

text \<open>
  C6. A submission of the display form whose name or city is empty or absent is
  answered by a redirect to the form; the only thing the view does to the world is to
  flash the validation message, so no request is sent to the weather service.
\<close>

theorem index_empty_field_no_api_call:
  assumes "py_not (form ''name'') \<or> py_not (form ''city'')"
  shows "fst (index env POST form w) = Inr (Redirect ''index'') \<and>
         events_since w (snd (index env POST form w)) =
           [Flash ''Please enter both your name and a city.'' ''error''] \<and>
         db (snd (index env POST form w)) = db w"
  using assms by (auto simp add: index_def Let_def flash_def events_since_emit db_emit)

theorem index_empty_field_no_api_call_witness:
  "(py_not (name_only_form ''name'') \<or> py_not (name_only_form ''city'')) \<and>
   fst (index demo_env POST name_only_form demo_world) = Inr (Redirect ''index'') \<and>
   events_since demo_world (snd (index demo_env POST name_only_form demo_world)) =
     [Flash ''Please enter both your name and a city.'' ''error''] \<and>
   db (snd (index demo_env POST name_only_form demo_world)) = db demo_world"
proof -
  have h: "py_not (name_only_form ''name'') \<or> py_not (name_only_form ''city'')"
    by (simp add: name_only_form_def py_not_def)
  from index_empty_field_no_api_call [OF h, of demo_env demo_world] h
  show ?thesis by blast
qed

subsection \<open>Weather client\<close>



text \<open>
  C3. A response with a status from 200 to 299 whose body is an object with a city
  descriptor holding name and country, and whose samples all carry a \<^verbatim>\<open>dt_txt\<close> text
  without \<^verbatim>\<open>12:00:00\<close> in it, gives a success: the empty list of forecasts, the name and
  country of the descriptor, the body itself, and no error message.
\<close>

theorem no_midday_sample_is_success:
  assumes "openweather_api_key env = Some key" and "key \<noteq> []"
    and "http_get env (api_url city key) = Responded r"
    and "200 \<le> status_code r" and "status_code r < 300"
    and "json_body r = Inr (JObj kv)"
    and "dict_get_list (JObj kv) = Inr (JArr samples)"
    and "list_all not_midday_text samples"
    and "map_of kv ''city'' = Some c"
    and "getitem_str c ''name'' = Inr name"
    and "getitem_str c ''country'' = Inr country"
  shows "get_weather_forecast env city w =
     (Inr (Tuple4 (Some []) (Some \<lparr>ci_name = name, ci_country = country\<rparr>)
             (Some (JObj kv)) None),
      emit (HttpGet (api_url city key)) w)"
proof -
  have "process_forecasts env samples [] = Inr []"
    using assms(8) by (rule process_forecasts_no_midday)
  moreover have "make_city_info (JObj kv) = Inr \<lparr>ci_name = name, ci_country = country\<rparr>"
    using assms(9-11) by (simp add: make_city_info_def)
  ultimately have "process_data env (JObj kv) =
      Inr (Tuple4 (Some []) (Some \<lparr>ci_name = name, ci_country = country\<rparr>)
             (Some (JObj kv)) None)"
    using assms(7) by (simp add: process_data_def)
  moreover have "raise_for_status r = Inr ()"
    using assms(4,5) by (simp add: raise_for_status_def)
  ultimately have "try_fetch env (api_url city key) =
      Inr (Tuple4 (Some []) (Some \<lparr>ci_name = name, ci_country = country\<rparr>)
             (Some (JObj kv)) None)"
    using assms(3,6) by (simp add: try_fetch_def)
  then show ?thesis
    using assms(1,2) by (simp add: get_weather_forecast_def Let_def)
qed

theorem no_midday_sample_is_success_witness:
  "openweather_api_key (env_answering 200 afternoon_body) = Some ''k'' \<and> ''k'' \<noteq> [] \<and>
   http_get (env_answering 200 afternoon_body) (api_url ''Paris'' ''k'') =
     respond 200 afternoon_body (api_url ''Paris'' ''k'') \<and>
   afternoon_body = JObj [(''list'', JArr [afternoon_sample]), (''city'', paris_city)] \<and>
   list_all not_midday_text [afternoon_sample] \<and>
   getitem_str paris_city ''name'' = Inr (JStr ''Paris'') \<and>
   getitem_str paris_city ''country'' = Inr (JStr ''FR'') \<and>
   get_weather_forecast (env_answering 200 afternoon_body) ''Paris'' demo_world =
     (Inr (Tuple4 (Some []) (Some paris_info) (Some afternoon_body) None),
      emit (HttpGet (api_url ''Paris'' ''k'')) demo_world)"
proof -
  let ?r = "\<lparr>status_code = 200,
             http_error_text = ''HTTP error for url: '' @ api_url ''Paris'' ''k'',
             json_body = Inr afternoon_body\<rparr>"
  let ?kv = "[(''list'', JArr [afternoon_sample]), (''city'', paris_city)]"
  have k: "openweather_api_key (env_answering 200 afternoon_body) = Some ''k''"
    by (simp add: env_answering_def demo_env_def)
  have n: "(''k'' :: string) \<noteq> []" by simp
  have g: "http_get (env_answering 200 afternoon_body) (api_url ''Paris'' ''k'') =
      Responded ?r"
    by (simp add: env_answering_def respond_def)
  have lo: "200 \<le> status_code ?r" by simp
  have hi: "status_code ?r < 300" by simp
  have b: "json_body ?r = Inr (JObj ?kv)" by (simp add: afternoon_body_def)
  have l: "dict_get_list (JObj ?kv) = Inr (JArr [afternoon_sample])" by simp
  have m: "list_all not_midday_text [afternoon_sample]"
    by (simp add: not_midday_text_def afternoon_sample_def)
  have c: "map_of ?kv ''city'' = Some paris_city" by simp
  have cn: "getitem_str paris_city ''name'' = Inr (JStr ''Paris'')"
    by (simp add: paris_city_def)
  have cc: "getitem_str paris_city ''country'' = Inr (JStr ''FR'')"
    by (simp add: paris_city_def)
  from no_midday_sample_is_success [OF k n g lo hi b l m c cn cc, of demo_world] g m cn cc k
  show ?thesis by (simp add: afternoon_body_def paris_info_def respond_def)
qed

theorem no_midday_sample_malformed_counterexample:
  "http_get (env_answering 200 afternoon_no_city_body) (api_url ''Paris'' ''k'') =
     respond 200 afternoon_no_city_body (api_url ''Paris'' ''k'') \<and>
   filter midday_sample (response_samples afternoon_no_city_body) = [] \<and>
   fst (get_weather_forecast (env_answering 200 afternoon_no_city_body) ''Paris''
     demo_world) = Inl (KeyError ''city'') \<and>
   http_get (env_answering 200 no_dt_txt_body) (api_url ''Paris'' ''k'') =
     respond 200 no_dt_txt_body (api_url ''Paris'' ''k'') \<and>
   filter midday_sample (response_samples no_dt_txt_body) = [] \<and>
   fst (get_weather_forecast (env_answering 200 no_dt_txt_body) ''Paris'' demo_world) =
     Inl (KeyError ''dt_txt'')"
  by (simp add: eval_defs afternoon_no_city_body_def no_dt_txt_body_def
      response_samples_def midday_sample_def Let_def)

text \<open>
  C4. When the weather service answers a request for a city with status 404,
  \<open>get_weather_forecast\<close> returns no forecasts, no city and no raw document, and the
  message that names the requested city between single quotes.
\<close>

theorem not_found_names_city:
  assumes "openweather_api_key env = Some key" and "key \<noteq> []"
    and "http_get env (api_url city key) = Responded r" and "status_code r = 404"
  shows "get_weather_forecast env city w =
     (Inr (Tuple4 None None None
        (Some (''Could not find weather data for '' @ [CHR 0x27] @ city @ [CHR 0x27]
                 @ ''. Please check the spelling.''))),
      emit (HttpGet (api_url city key)) w)"
  using assms
  by (simp add: get_weather_forecast_def try_fetch_def raise_for_status_def
      not_found_message_def Let_def)

theorem not_found_names_city_witness:
  "openweather_api_key (env_answering 404 JNull) = Some ''k'' \<and> ''k'' \<noteq> [] \<and>
   http_get (env_answering 404 JNull) (api_url ''Nonexistentville123'' ''k'') =
     respond 404 JNull (api_url ''Nonexistentville123'' ''k'') \<and>
   fst (get_weather_forecast (env_answering 404 JNull) ''Nonexistentville123'' demo_world) =
     Inr (Tuple4 None None None
       (Some (''Could not find weather data for '' @ [CHR 0x27] @ ''Nonexistentville123''
                @ [CHR 0x27] @ ''. Please check the spelling.'')))"
proof -
  let ?r = "\<lparr>status_code = 404,
             http_error_text = ''HTTP error for url: '' @ api_url ''Nonexistentville123'' ''k'',
             json_body = Inr JNull\<rparr>"
  have k: "openweather_api_key (env_answering 404 JNull) = Some ''k''"
    by (simp add: env_answering_def demo_env_def)
  have n: "(''k'' :: string) \<noteq> []" by simp
  have g: "http_get (env_answering 404 JNull) (api_url ''Nonexistentville123'' ''k'') =
      Responded ?r"
    by (simp add: env_answering_def respond_def)
  have s: "status_code ?r = 404" by simp
  from not_found_names_city [OF k n g s, of demo_world] k g
  show ?thesis by (simp add: respond_def)
qed



text \<open>
  C10. There are responses with status 200 for which \<open>get_weather_forecast\<close> raises
  instead of returning an error: a body without \<^verbatim>\<open>city\<close>, a sample without \<^verbatim>\<open>dt_txt\<close>,
  a midday sample without \<^verbatim>\<open>main\<close> or without \<^verbatim>\<open>weather\<close> each end in a \<open>KeyError\<close> that
  neither \<^verbatim>\<open>except\<close> clause catches, and the view lets it through.
\<close>

theorem missing_key_escapes:
  "fst (get_weather_forecast (env_answering 200 no_city_body) ''Paris'' demo_world) =
     Inl (KeyError ''city'') \<and>
   fst (get_weather_forecast (env_answering 200 no_dt_txt_body) ''Paris'' demo_world) =
     Inl (KeyError ''dt_txt'') \<and>
   fst (get_weather_forecast (env_answering 200 no_main_body) ''Paris'' demo_world) =
     Inl (KeyError ''main'') \<and>
   fst (get_weather_forecast (env_answering 200 no_weather_body) ''Paris'' demo_world) =
     Inl (KeyError ''weather'') \<and>
   fst (index (env_answering 200 no_city_body) POST alice_paris_form demo_world) =
     Inl (KeyError ''city'')"
  by (simp add: eval_defs no_city_body_def no_dt_txt_body_def no_main_body_def
      no_weather_body_def index_def index_forecast_def alice_paris_form_def py_not_def
      text_of_def Let_def)

subsection \<open>Save form\<close>

lemma nested_differs:
  "length s \<noteq> 100000 \<Longrightarrow> (s = deeply_nested) = False"
  "length s \<noteq> 100000 \<Longrightarrow> (deeply_nested = s) = False"
  by (auto simp add: deeply_nested_def)

lemma loads_not_json: "json_loads demo_env ''not-json'' = Inl (JSONDecodeError ''Expecting value'')"
  by (simp add: demo_env_def nested_differs)

lemma loads_nan: "json_loads demo_env ''NaN'' = Inr (JFloat NaN)"
  by (simp add: demo_env_def)

lemma loads_nested: "json_loads demo_env deeply_nested = Inl RecursionError"
  by (simp add: demo_env_def nested_differs)

text \<open>
  C7. A submission of the save form whose \<^verbatim>\<open>raw_data\<close> is present and on which
  \<^verbatim>\<open>json.loads\<close> raises \<^verbatim>\<open>JSONDecodeError\<close> never reaches the store: the view redirects,
  leaves the database as it was, and adds one event to the log, a flashed error. The
  message is that of the invalid format when user name, city and \<^verbatim>\<open>raw_data\<close> are all
  non-empty, and that of the missing data otherwise.
\<close>

theorem invalid_json_never_stored:
  assumes "form ''raw_data'' = Some s" and "json_loads env s = Inl (JSONDecodeError m)"
  shows "fst (save_forecast env form w) = Inr (Redirect ''index'') \<and>
         db (snd (save_forecast env form w)) = db w \<and>
         events_since w (snd (save_forecast env form w)) =
           [Flash (if py_not (form ''user_name'') \<or> py_not (form ''city'') \<or> s = []
                   then ''Missing data to save the forecast.''
                   else ''Invalid forecast data format.'') ''error'']"
  using assms
  by (simp add: save_forecast_def Let_def flash_def events_since_emit db_emit py_not_def
      text_of_def)

theorem invalid_json_never_stored_witness:
  "bad_json_form ''raw_data'' = Some ''not-json'' \<and>
   json_loads demo_env ''not-json'' = Inl (JSONDecodeError ''Expecting value'') \<and>
   fst (save_forecast demo_env bad_json_form demo_world) = Inr (Redirect ''index'') \<and>
   db (snd (save_forecast demo_env bad_json_form demo_world)) = db demo_world \<and>
   events_since demo_world (snd (save_forecast demo_env bad_json_form demo_world)) =
     [Flash ''Invalid forecast data format.'' ''error'']"
proof -
  have f: "bad_json_form ''raw_data'' = Some ''not-json''"
    by (simp add: bad_json_form_def)
  have n: "\<not> (py_not (bad_json_form ''user_name'') \<or> py_not (bad_json_form ''city'') \<or>
              ''not-json'' = [])"
    by (simp add: bad_json_form_def py_not_def)
  from invalid_json_never_stored
    [where form = bad_json_form and env = demo_env and w = demo_world,
     OF f loads_not_json] f loads_not_json n
  show ?thesis by simp
qed

text \<open>
  Three submissions with a \<^verbatim>\<open>raw_data\<close> that is no JSON, each outside what the view does
  for the text \<^verbatim>\<open>json.loads\<close> refuses: without a user name the message is that of the
  missing data; the text \<^verbatim>\<open>NaN\<close> is decoded and reaches the insert; a hundred thousand
  opening brackets end in a \<^verbatim>\<open>RecursionError\<close> that leaves the view, and nothing is
  flashed.
\<close>

theorem invalid_json_other_exits_counterexample:
  "city_raw_form ''raw_data'' = Some ''not-json'' \<and>
   json_loads demo_env ''not-json'' = Inl (JSONDecodeError ''Expecting value'') \<and>
   events_since demo_world (snd (save_forecast demo_env city_raw_form demo_world)) =
     [Flash ''Missing data to save the forecast.'' ''error''] \<and>
   nan_form ''raw_data'' = Some ''NaN'' \<and>
   json_loads demo_env ''NaN'' = Inr (JFloat NaN) \<and>
   DbExecute (InsertForecast ''Alice'' ''Paris'' (JFloat NaN))
     \<in> set (events (snd (save_forecast demo_env nan_form demo_world))) \<and>
   nested_form ''raw_data'' = Some deeply_nested \<and>
   json_loads demo_env deeply_nested = Inl RecursionError \<and>
   save_forecast demo_env nested_form demo_world = (Inl RecursionError, demo_world)"
proof -
  have a: "events_since demo_world (snd (save_forecast demo_env city_raw_form demo_world)) =
      [Flash ''Missing data to save the forecast.'' ''error'']"
    by (simp add: save_forecast_def Let_def flash_def events_since_emit py_not_def
        city_raw_form_def)
  have d: "connect_fault demo_env = None" "close_fault demo_env = None"
    "rollback_fault demo_env = None" "commit_fault demo_env = None"
    "execute_fault demo_env (InsertForecast ''Alice'' ''Paris'' (JFloat NaN)) = None"
    "database_url demo_env = Some ''postgresql://db''"
    by (simp_all add: demo_env_def)
  have b: "DbExecute (InsertForecast ''Alice'' ''Paris'' (JFloat NaN))
      \<in> set (events (snd (save_forecast demo_env nan_form demo_world)))"
    by (simp add: save_forecast_def Let_def py_not_def text_of_def nan_form_def loads_nan
        save_forecast_to_db_def get_db_connection_def try_insert_def cursor_execute_def
        except_exception_def conn_rollback_def finally_close_def conn_close_def
        flash_def emit_def demo_world_def d)
  have c: "save_forecast demo_env nested_form demo_world = (Inl RecursionError, demo_world)"
    by (simp add: save_forecast_def Let_def py_not_def text_of_def nested_form_def
        loads_nested nested_differs)
  show ?thesis
    using a b c loads_not_json loads_nan loads_nested
    by (simp add: city_raw_form_def nan_form_def nested_form_def)
qed

subsection \<open>Forecast store\<close>

lemma connect_refused:
  "connect_fault env = Some (OperationalError m) \<Longrightarrow>
   get_db_connection env w =
     (Inr None, emit (Print (''Error connecting to the database: '' @ m))
                  (emit (DbConnect (database_url env)) w))"
  by (simp add: get_db_connection_def Let_def)

lemma connect_established:
  "connect_fault env = None \<Longrightarrow>
   get_db_connection env w =
     (Inr (Some \<lparr>pending = db w\<rparr>), emit (DbConnect (database_url env)) w)"
  by (simp add: get_db_connection_def Let_def db_emit)

lemma connect_operational:
  "operational_connect env \<Longrightarrow> connect_fault env \<noteq> None \<Longrightarrow>
   \<exists>m. connect_fault env = Some (OperationalError m)"
  by (auto simp add: operational_connect_def split: option.splits py_exn.splits)

lemma connection_failed:
  assumes "connect_fault env = Some (OperationalError m)"
  shows "save_forecast_to_db env user_name city forecast_data w =
     (Inr (False, ''Database connection failed.''),
      w\<lparr>events := events w @
        [DbConnect (database_url env),
         Print (''Error connecting to the database: '' @ m)]\<rparr>)"
  using assms by (simp add: save_forecast_to_db_def connect_refused emit_def)

lemma insert_attempt_failed:
  assumes "connect_fault env = None" and "rollback_fault env = None"
    and "close_fault env = None"
    and "insert_raises env user_name city forecast_data w"
  shows "\<exists>mid line.
     save_forecast_to_db env user_name city forecast_data w =
       (Inr (False, ''Failed to save forecast due to a database error.''),
        w\<lparr>events := events w @
             [DbConnect (database_url env),
              DbExecute (InsertForecast user_name city forecast_data)] @ mid @
             [DbRollback, Print line, DbClose]\<rparr>)"
proof (cases "execute_fault env (InsertForecast user_name city forecast_data)")
  case (Some e)
  with assms(1-3) have "save_forecast_to_db env user_name city forecast_data w =
       (Inr (False, ''Failed to save forecast due to a database error.''),
        w\<lparr>events := events w @
             [DbConnect (database_url env),
              DbExecute (InsertForecast user_name city forecast_data)] @ [] @
             [DbRollback, Print (''Database error: '' @ exn_text e), DbClose]\<rparr>)"
    by (simp add: save_forecast_to_db_def connect_established try_insert_def
        cursor_execute_def except_exception_def conn_rollback_def finally_close_def
        conn_close_def Let_def emit_def)
  then show ?thesis by blast
next
  case None
  note exec = this
  show ?thesis
  proof (cases "forecasts_table (db w)")
    case None
    with exec assms(1-3) have "save_forecast_to_db env user_name city forecast_data w =
       (Inr (False, ''Failed to save forecast due to a database error.''),
        w\<lparr>events := events w @
             [DbConnect (database_url env),
              DbExecute (InsertForecast user_name city forecast_data)] @ [] @
             [DbRollback,
              Print (''Database error: '' @
                exn_text (DatabaseError ''relation forecasts does not exist'')),
              DbClose]\<rparr>)"
      by (simp add: save_forecast_to_db_def connect_established try_insert_def
          cursor_execute_def except_exception_def conn_rollback_def finally_close_def
          conn_close_def Let_def emit_def)
    then show ?thesis by blast
  next
    case (Some rows)
    with exec assms(4) obtain e where "commit_fault env = Some e"
      by (auto simp add: insert_raises_def)
    with Some exec assms(1-3) have "save_forecast_to_db env user_name city forecast_data w =
       (Inr (False, ''Failed to save forecast due to a database error.''),
        w\<lparr>events := events w @
             [DbConnect (database_url env),
              DbExecute (InsertForecast user_name city forecast_data)] @ [DbCommit] @
             [DbRollback, Print (''Database error: '' @ exn_text e), DbClose]\<rparr>)"
      by (simp add: save_forecast_to_db_def connect_established try_insert_def
          cursor_execute_def conn_commit_def except_exception_def conn_rollback_def
          finally_close_def conn_close_def Let_def emit_def)
    then show ?thesis by blast
  qed
qed

lemma insert_attempt_saved:
  assumes "connect_fault env = None" and "close_fault env = None"
    and "\<not> insert_raises env user_name city forecast_data w"
  shows "\<exists>rows.
     forecasts_table (db w) = Some rows \<and>
     save_forecast_to_db env user_name city forecast_data w =
       (Inr (True, ''Forecast saved successfully!''),
        w\<lparr>db := (db w)\<lparr>forecasts_table := Some (rows @
                 [\<lparr>row_user_name = user_name, row_city = city,
                   row_forecast_data = forecast_data\<rparr>])\<rparr>,
          events := events w @
             [DbConnect (database_url env),
              DbExecute (InsertForecast user_name city forecast_data), DbCommit,
              DbClose]\<rparr>)"
proof -
  from assms(3) obtain rows where "forecasts_table (db w) = Some rows"
    and "execute_fault env (InsertForecast user_name city forecast_data) = None"
    and "commit_fault env = None"
    by (auto simp add: insert_raises_def)
  with assms(1,2) show ?thesis
    by (simp add: save_forecast_to_db_def connect_established try_insert_def
        cursor_execute_def conn_commit_def except_exception_def finally_close_def
        conn_close_def Let_def emit_def)
qed

lemma finally_close_world:
  "snd (finally_close env (r, conn, w1)) = emit DbClose w1"
  by (simp add: finally_close_def conn_close_def Let_def split: option.splits)

lemma close_is_last:
  assumes "connect_fault env = None"
  shows "last (events (snd (save_forecast_to_db env user_name city forecast_data w))) = DbClose"
proof -
  obtain r conn w1 where
    "except_exception env (try_insert env user_name city forecast_data \<lparr>pending = db w\<rparr>
       (emit (DbConnect (database_url env)) w)) = (r, conn, w1)"
    by (metis prod_cases3)
  with assms have "snd (save_forecast_to_db env user_name city forecast_data w) =
      emit DbClose w1"
    by (simp add: save_forecast_to_db_def connect_established finally_close_world)
  then show ?thesis by (simp add: emit_def)
qed

lemma try_insert_raises:
  assumes "insert_raises env user_name city forecast_data w"
  shows "\<exists>e conn w2.
     try_insert env user_name city forecast_data \<lparr>pending = db w\<rparr> w1 = (Inl e, conn, w2) \<and>
     db w2 = db w1 \<and> (\<exists>evs. events w2 = events w1 @ evs)"
proof (cases "execute_fault env (InsertForecast user_name city forecast_data)")
  case (Some e)
  then show ?thesis
    by (simp add: try_insert_def cursor_execute_def Let_def emit_def)
next
  case None
  note exec = this
  show ?thesis
  proof (cases "forecasts_table (db w)")
    case None
    with exec show ?thesis
      by (simp add: try_insert_def cursor_execute_def Let_def emit_def)
  next
    case (Some rows)
    with exec assms obtain e where "commit_fault env = Some e"
      by (auto simp add: insert_raises_def)
    with Some exec show ?thesis
      by (simp add: try_insert_def cursor_execute_def conn_commit_def Let_def emit_def)
  qed
qed

lemma except_exception_raised:
  "\<exists>r conn' w3.
     except_exception env (Inl e, conn, w2) = (r, conn', w3) \<and>
     db w3 = db w2 \<and> (\<exists>evs. events w3 = events w2 @ DbRollback # evs) \<and>
     (rollback_fault env = None \<longrightarrow> pending conn' = db w2)"
  by (cases "rollback_fault env")
    (simp_all add: except_exception_def conn_rollback_def Let_def emit_def)

lemma rollback_attempted:
  assumes "connect_fault env = None"
    and "insert_raises env user_name city forecast_data w"
  shows "DbRollback \<in> set (events_since w
           (snd (save_forecast_to_db env user_name city forecast_data w))) \<and>
         db (snd (save_forecast_to_db env user_name city forecast_data w)) = db w \<and>
         (rollback_fault env = None \<longrightarrow>
            transaction_after_attempt env user_name city forecast_data w = db w)"
proof -
  define w1 where "w1 = emit (DbConnect (database_url env)) w"
  have w1: "db w1 = db w" "events w1 = events w @ [DbConnect (database_url env)]"
    by (simp_all add: w1_def emit_def)
  from try_insert_raises [OF assms(2), of w1] obtain e conn w2 evs where
    t: "try_insert env user_name city forecast_data \<lparr>pending = db w\<rparr> w1 = (Inl e, conn, w2)"
    and w2: "db w2 = db w1" "events w2 = events w1 @ evs"
    by auto
  from except_exception_raised [of env e conn w2] obtain r conn' w3 evs' where
    x: "except_exception env (Inl e, conn, w2) = (r, conn', w3)"
    and w3: "db w3 = db w2" "events w3 = events w2 @ DbRollback # evs'"
    and p: "rollback_fault env = None \<longrightarrow> pending conn' = db w2"
    by auto
  from assms(1) t x have
    "snd (save_forecast_to_db env user_name city forecast_data w) = emit DbClose w3"
    by (simp add: save_forecast_to_db_def connect_established finally_close_world
        w1_def [symmetric])
  with w1 w2 w3 have "DbRollback \<in> set (events_since w
           (snd (save_forecast_to_db env user_name city forecast_data w)))"
    and "db (snd (save_forecast_to_db env user_name city forecast_data w)) = db w"
    by (simp_all add: events_since_def emit_def)
  moreover from t x p w1 w2 have "rollback_fault env = None \<longrightarrow>
      transaction_after_attempt env user_name city forecast_data w = db w"
    by (simp add: transaction_after_attempt_def Let_def w1_def [symmetric])
  ultimately show ?thesis by blast
qed

text \<open>
  C8. For every user name, city and document, and whatever the driver does:
  \<^item> if the driver fails to connect with nothing but \<^verbatim>\<open>OperationalError\<close> and its
    \<^verbatim>\<open>rollback\<close> and \<^verbatim>\<open>close\<close> return, \<open>save_forecast_to_db\<close> returns a pair and does not
    raise;
  \<^item> when the connection fails with \<^verbatim>\<open>OperationalError\<close>, the pair is a failure with the
    message of the connection, the database is as before and no statement was run;
  \<^item> when the insert raises, the rollback is called and the database is as before; if
    the rollback returns, the transaction of the connection is back at the committed
    state, and if the close returns too the pair is a failure with the message of the
    write, after the rollback and before the close;
  \<^item> when the insert does not raise and the close returns, the row is in the table;
  \<^item> the close is the last event of every attempt that had a connection;
  \<^item> the two messages of failure differ.
\<close>

theorem save_forecast_to_db_contract:
  "(operational_connect env \<and> rollback_fault env = None \<and> close_fault env = None \<longrightarrow>
      (\<exists>success message.
         fst (save_forecast_to_db env user_name city forecast_data w) =
           Inr (success, message))) \<and>
   (\<forall>m. connect_fault env = Some (OperationalError m) \<longrightarrow>
      fst (save_forecast_to_db env user_name city forecast_data w) =
        Inr (False, ''Database connection failed.'') \<and>
      db (snd (save_forecast_to_db env user_name city forecast_data w)) = db w \<and>
      (\<forall>stmt. DbExecute stmt \<notin> set (events_since w
         (snd (save_forecast_to_db env user_name city forecast_data w))))) \<and>
   (connect_fault env = None \<and> insert_raises env user_name city forecast_data w \<longrightarrow>
      DbRollback \<in> set (events_since w
        (snd (save_forecast_to_db env user_name city forecast_data w))) \<and>
      db (snd (save_forecast_to_db env user_name city forecast_data w)) = db w \<and>
      (rollback_fault env = None \<longrightarrow>
         transaction_after_attempt env user_name city forecast_data w = db w) \<and>
      (rollback_fault env = None \<and> close_fault env = None \<longrightarrow>
         fst (save_forecast_to_db env user_name city forecast_data w) =
           Inr (False, ''Failed to save forecast due to a database error.'') \<and>
         (\<exists>before between.
            events_since w (snd (save_forecast_to_db env user_name city forecast_data w)) =
              before @ [DbRollback] @ between @ [DbClose]))) \<and>
   (connect_fault env = None \<and> \<not> insert_raises env user_name city forecast_data w \<and>
    close_fault env = None \<longrightarrow>
      fst (save_forecast_to_db env user_name city forecast_data w) =
        Inr (True, ''Forecast saved successfully!'') \<and>
      forecasts_table (db (snd (save_forecast_to_db env user_name city forecast_data w))) =
        map_option (\<lambda>rows. rows @
          [\<lparr>row_user_name = user_name, row_city = city,
            row_forecast_data = forecast_data\<rparr>]) (forecasts_table (db w))) \<and>
   (connect_fault env = None \<longrightarrow>
      last (events (snd (save_forecast_to_db env user_name city forecast_data w))) =
        DbClose) \<and>
   ''Database connection failed.'' \<noteq> ''Failed to save forecast due to a database error.''"
proof (intro conjI allI impI)
  fix m
  assume c: "connect_fault env = Some (OperationalError m)"
  from connection_failed [OF c, of user_name city forecast_data w]
  show "fst (save_forecast_to_db env user_name city forecast_data w) =
          Inr (False, ''Database connection failed.'')"
    and "db (snd (save_forecast_to_db env user_name city forecast_data w)) = db w"
    and "\<And>stmt. DbExecute stmt \<notin> set (events_since w
           (snd (save_forecast_to_db env user_name city forecast_data w)))"
    by (simp_all add: events_since_def)
next
  assume "connect_fault env = None \<and> insert_raises env user_name city forecast_data w"
  then have c: "connect_fault env = None"
    and i: "insert_raises env user_name city forecast_data w" by simp_all
  from rollback_attempted [OF c i]
  show "DbRollback \<in> set (events_since w
          (snd (save_forecast_to_db env user_name city forecast_data w)))"
    and "db (snd (save_forecast_to_db env user_name city forecast_data w)) = db w"
    by simp_all
  {
    assume "rollback_fault env = None"
    with rollback_attempted [OF c i]
    show "transaction_after_attempt env user_name city forecast_data w = db w" by simp
  }
  {
    assume "rollback_fault env = None \<and> close_fault env = None"
    then have r: "rollback_fault env = None" and cl: "close_fault env = None" by simp_all
    from insert_attempt_failed [OF c r cl i] obtain mid line where
      s: "save_forecast_to_db env user_name city forecast_data w =
       (Inr (False, ''Failed to save forecast due to a database error.''),
        w\<lparr>events := events w @
             [DbConnect (database_url env),
              DbExecute (InsertForecast user_name city forecast_data)] @ mid @
             [DbRollback, Print line, DbClose]\<rparr>)"
      by blast
    then show "fst (save_forecast_to_db env user_name city forecast_data w) =
        Inr (False, ''Failed to save forecast due to a database error.'')" by simp
    have "events_since w (snd (save_forecast_to_db env user_name city forecast_data w)) =
        ([DbConnect (database_url env),
          DbExecute (InsertForecast user_name city forecast_data)] @ mid) @ [DbRollback] @
        [Print line] @ [DbClose]"
      using s by (simp add: events_since_def)
    then show "\<exists>before between.
        events_since w (snd (save_forecast_to_db env user_name city forecast_data w)) =
          before @ [DbRollback] @ between @ [DbClose]"
      by blast
  }
next
  assume "connect_fault env = None \<and> \<not> insert_raises env user_name city forecast_data w \<and>
    close_fault env = None"
  then have c: "connect_fault env = None" and cl: "close_fault env = None"
    and i: "\<not> insert_raises env user_name city forecast_data w" by simp_all
  from insert_attempt_saved [OF c cl i]
  show "fst (save_forecast_to_db env user_name city forecast_data w) =
        Inr (True, ''Forecast saved successfully!'')"
    and "forecasts_table (db (snd (save_forecast_to_db env user_name city forecast_data w))) =
        map_option (\<lambda>rows. rows @
          [\<lparr>row_user_name = user_name, row_city = city,
            row_forecast_data = forecast_data\<rparr>]) (forecasts_table (db w))"
    by auto
next
  assume "connect_fault env = None"
  then show "last (events (snd (save_forecast_to_db env user_name city forecast_data w))) =
      DbClose"
    by (rule close_is_last)
next
  show "''Database connection failed.'' \<noteq>
      ''Failed to save forecast due to a database error.''" by simp
next
  assume "operational_connect env \<and> rollback_fault env = None \<and> close_fault env = None"
  then have o: "operational_connect env" and r: "rollback_fault env = None"
    and cl: "close_fault env = None" by simp_all
  show "\<exists>success message.
      fst (save_forecast_to_db env user_name city forecast_data w) = Inr (success, message)"
  proof (cases "connect_fault env")
    case (Some e)
    with o obtain m where "connect_fault env = Some (OperationalError m)"
      using connect_operational by blast
    from connection_failed [OF this, of user_name city forecast_data w]
    have "fst (save_forecast_to_db env user_name city forecast_data w) =
        Inr (False, ''Database connection failed.'')" by simp
    then show ?thesis by blast
  next
    case None
    show ?thesis
    proof (cases "insert_raises env user_name city forecast_data w")
      case True
      from insert_attempt_failed [OF None r cl True] show ?thesis by auto
    next
      case False
      from insert_attempt_saved [OF None cl False] show ?thesis by auto
    qed
  qed
qed

theorem save_forecast_to_db_contract_witness:
  "operational_connect lost_connection_env \<and> rollback_fault lost_connection_env = None \<and>
   close_fault lost_connection_env = None \<and> connect_fault lost_connection_env = None \<and>
   insert_raises lost_connection_env ''Alice'' ''Paris'' paris_body saved_world \<and>
   fst (save_forecast_to_db lost_connection_env ''Alice'' ''Paris'' paris_body saved_world) =
     Inr (False, ''Failed to save forecast due to a database error.'') \<and>
   db (snd (save_forecast_to_db lost_connection_env ''Alice'' ''Paris'' paris_body
     saved_world)) = db saved_world \<and>
   transaction_after_attempt lost_connection_env ''Alice'' ''Paris'' paris_body saved_world =
     db saved_world \<and>
   last (events (snd (save_forecast_to_db lost_connection_env ''Alice'' ''Paris'' paris_body
     saved_world))) = DbClose \<and>
   connect_fault unreachable_db_env = Some (OperationalError ''connection refused'') \<and>
   fst (save_forecast_to_db unreachable_db_env ''Alice'' ''Paris'' paris_body saved_world) =
     Inr (False, ''Database connection failed.'')"
proof -
  have o: "operational_connect lost_connection_env"
    by (simp add: operational_connect_def lost_connection_env_def demo_env_def)
  have r: "rollback_fault lost_connection_env = None"
    by (simp add: lost_connection_env_def demo_env_def)
  have c: "close_fault lost_connection_env = None"
    by (simp add: lost_connection_env_def demo_env_def)
  have n: "connect_fault lost_connection_env = None"
    by (simp add: lost_connection_env_def demo_env_def)
  have i: "insert_raises lost_connection_env ''Alice'' ''Paris'' paris_body saved_world"
    by (simp add: insert_raises_def lost_connection_env_def)
  have n': "connect_fault unreachable_db_env = Some (OperationalError ''connection refused'')"
    by (simp add: unreachable_db_env_def)
  from save_forecast_to_db_contract
      [of lost_connection_env "''Alice''" "''Paris''" paris_body saved_world]
    save_forecast_to_db_contract
      [of unreachable_db_env "''Alice''" "''Paris''" paris_body saved_world]
    o r c n i n'
  show ?thesis by simp
qed

text \<open>
  Two drivers under which \<open>save_forecast_to_db\<close> raises: one whose \<^verbatim>\<open>connect\<close> raises
  \<^verbatim>\<open>ProgrammingError\<close> on a malformed connection string, which \<open>get_db_connection\<close>
  does not catch; and one that loses the connection during the insert, so that the
  \<^verbatim>\<open>rollback\<close> of the \<^verbatim>\<open>except\<close> block raises in its turn.
\<close>

theorem save_forecast_to_db_raises_counterexample:
  "fst (save_forecast_to_db malformed_dsn_env ''Alice'' ''Paris'' paris_body saved_world) =
     Inl (ProgrammingError ''invalid dsn'') \<and>
   fst (save_forecast_to_db dead_connection_env ''Alice'' ''Paris'' paris_body saved_world) =
     Inl (InterfaceError ''connection already closed'')"
  by (simp add: save_forecast_to_db_def get_db_connection_def try_insert_def
      cursor_execute_def except_exception_def conn_rollback_def finally_close_def
      conn_close_def Let_def malformed_dsn_env_def dead_connection_env_def
      lost_connection_env_def demo_env_def)

lemma connect_except_db: "db (snd (connect_except e w)) = db w"
  by (cases e) (simp_all add: db_emit)

lemma connect_except_no_connection: "fst (connect_except e w) \<noteq> Inr (Some conn)"
  by (cases e) simp_all

lemma init_db_not_connected:
  assumes "connect_fault env = Some e"
  shows "db (snd (init_db env w)) = db w"
proof -
  obtain r w1 where c: "connect_except e (emit (DbConnect (database_url env)) w) = (r, w1)"
    by (cases "connect_except e (emit (DbConnect (database_url env)) w)")
  from c have d: "db w1 = db w"
    using connect_except_db [of e "emit (DbConnect (database_url env)) w"]
    by (simp add: db_emit)
  from c have n: "\<And>conn. r \<noteq> Inr (Some conn)"
    using connect_except_no_connection [of e "emit (DbConnect (database_url env)) w"]
    by simp
  from assms c d n show ?thesis
    by (cases r) (auto simp add: init_db_def get_db_connection_def Let_def db_emit
        split: option.splits)
qed

lemma init_db_connected:
  assumes "connect_fault env = None"
  shows "db (snd (init_db env w)) =
     (if execute_fault env CreateForecastsIfNotExists \<noteq> None \<or> commit_fault env \<noteq> None
      then db w
      else case forecasts_table (db w) of
             None \<Rightarrow> (db w)\<lparr>forecasts_table := Some []\<rparr>
           | Some rows \<Rightarrow> db w)"
  using assms
  by (auto simp add: init_db_def connect_established cursor_execute_def conn_commit_def
      conn_close_def db_emit Let_def split: option.splits)

lemma init_db_faulty: "init_faulty env \<Longrightarrow> db (snd (init_db env w)) = db w"
  by (cases "connect_fault env")
    (auto simp add: init_faulty_def init_db_connected init_db_not_connected)

lemma init_db_creates:
  "\<not> init_faulty env \<Longrightarrow> forecasts_table (db (snd (init_db env w))) \<noteq> None"
  by (auto simp add: init_faulty_def init_db_connected split: option.splits)

lemma init_db_present:
  "forecasts_table (db w) \<noteq> None \<Longrightarrow> db (snd (init_db env w)) = db w"
  by (cases "connect_fault env")
    (auto simp add: init_db_connected init_db_not_connected)

lemma init_db_runs_present:
  "forecasts_table (db w) \<noteq> None \<Longrightarrow> db (init_db_runs envs w) = db w"
proof (induction envs arbitrary: w)
  case Nil
  then show ?case by simp
next
  case (Cons env envs)
  from Cons.prems have same: "db (snd (init_db env w)) = db w" by (rule init_db_present)
  with Cons.prems have "forecasts_table (db (snd (init_db env w))) \<noteq> None" by simp
  from Cons.IH [OF this] same show ?case by simp
qed

lemma init_db_runs_faulty:
  "init_faulty env \<Longrightarrow> db (init_db_runs (replicate n env) w) = db w"
  by (induction n arbitrary: w) (simp_all add: init_db_faulty)

text \<open>
  C9. Once the table \<^verbatim>\<open>forecasts\<close> exists, any number of calls of \<open>init_db\<close>, whatever
  the driver does in each, leaves the database as it is: the table and its rows. And
  calling \<open>init_db\<close> again and again in one environment leaves the database as the first
  call has left it.
\<close>

theorem init_db_idempotent:
  "(forecasts_table (db w) \<noteq> None \<longrightarrow> db (init_db_runs envs w) = db w) \<and>
   db (init_db_runs (replicate (Suc n) env) w) = db (snd (init_db env w))"
proof
  show "forecasts_table (db w) \<noteq> None \<longrightarrow> db (init_db_runs envs w) = db w"
    by (simp add: init_db_runs_present)
next
  show "db (init_db_runs (replicate (Suc n) env) w) = db (snd (init_db env w))"
  proof (cases "init_faulty env")
    case True
    then show ?thesis by (simp add: init_db_runs_faulty)
  next
    case False
    then have "forecasts_table (db (snd (init_db env w))) \<noteq> None" by (rule init_db_creates)
    then show ?thesis by (simp add: init_db_runs_present)
  qed
qed

theorem init_db_idempotent_witness:
  "forecasts_table (db saved_world) \<noteq> None \<and>
   db (init_db_runs [demo_env, unreachable_db_env, lost_connection_env] saved_world) =
     db saved_world \<and>
   db (init_db_runs (replicate (Suc 2) demo_env) saved_world) =
     db (snd (init_db demo_env saved_world))"
proof -
  have t: "forecasts_table (db saved_world) \<noteq> None"
    by (simp add: saved_world_def)
  from init_db_idempotent
    [of saved_world "[demo_env, unreachable_db_env, lost_connection_env]" 2 demo_env] t
  show ?thesis by blast
qed

end
